theory Spec2Isabelle
  imports Main "HOL-Library.Word"
begin

section \<open>The Tier-1 gatekeeper \<^verbatim>\<open>scripts/validate_model.py\<close>\<close>

text \<open>
  The script validates one model folder: it loads \<^verbatim>\<open>metadata.yaml\<close>, checks the
  Tier-1 metadata contract, runs a framework-specific smoke test and maps the outcome to
  the process exit code. The embedding below follows the four functions of the script,
  \<^verbatim>\<open>load_metadata\<close>, \<^verbatim>\<open>validate_tier_1\<close>, \<^verbatim>\<open>smoke_test_model\<close> and \<^verbatim>\<open>main\<close>.
  Printing is modelled by returning the printed lines, \<^verbatim>\<open>sys.exit\<close> and uncaught
  exceptions by result values.
\<close>

subsection \<open>Python values\<close>

text \<open>
  The objects \<^verbatim>\<open>yaml.safe_load\<close> builds for the YAML core schema: \<^verbatim>\<open>None\<close>, booleans,
  integers, floats (a double, kept as its 64 bits), strings, lists and dictionaries.
  A dictionary is the list of its items in insertion order; a key is looked up with
  \<^const>\<open>map_of\<close>. Only string keys are ever looked up by the script, and a string is
  equal (Python's \<^verbatim>\<open>==\<close>) to a value exactly when that value is the same string, so
  equality of \<open>py_value\<close> is Python's equality wherever the script compares.
\<close>

datatype py_value =
    PNone
  | PBool bool
  | PInt int
  | PFloat "64 word"
  | PStr string
  | PList "py_value list"
  | PDict "(py_value \<times> py_value) list"

datatype py_type = T_str | T_int | T_bool | T_float | T_list | T_dict | T_NoneType

text \<open>\<^verbatim>\<open>expected_type.__name__\<close>\<close>

fun type_name :: "py_type \<Rightarrow> string" where
  "type_name T_str = ''str''"
| "type_name T_int = ''int''"
| "type_name T_bool = ''bool''"
| "type_name T_float = ''float''"
| "type_name T_list = ''list''"
| "type_name T_dict = ''dict''"
| "type_name T_NoneType = ''NoneType''"

text \<open>\<^verbatim>\<open>isinstance(v, t)\<close>; \<^verbatim>\<open>bool\<close> is a subclass of \<^verbatim>\<open>int\<close>.\<close>

fun isinstance :: "py_value \<Rightarrow> py_type \<Rightarrow> bool" where
  "isinstance PNone t = (t = T_NoneType)"
| "isinstance (PBool b) t = (t = T_bool \<or> t = T_int)"
| "isinstance (PInt i) t = (t = T_int)"
| "isinstance (PFloat w) t = (t = T_float)"
| "isinstance (PStr s) t = (t = T_str)"
| "isinstance (PList xs) t = (t = T_list)"
| "isinstance (PDict kvs) t = (t = T_dict)"

datatype py_exception = TypeError | AttributeError | KeyError

text \<open>Python's \<^verbatim>\<open>k in s\<close> on two strings: \<open>k\<close> occurs in \<open>s\<close> as a contiguous run.\<close>

fun is_substring :: "string \<Rightarrow> string \<Rightarrow> bool" where
  "is_substring k [] = (k = [])"
| "is_substring k (c # cs) = (take (length k) (c # cs) = k \<or> is_substring k cs)"

text \<open>
  \<^verbatim>\<open>field in metadata\<close> for a string \<open>field\<close>: key membership on a dictionary, element
  membership on a list, substring test on a string, \<^verbatim>\<open>TypeError\<close> (not iterable) on
  every other value.
\<close>

fun py_contains :: "py_value \<Rightarrow> string \<Rightarrow> py_exception + bool" where
  "py_contains (PDict kvs) field = Inr (map_of kvs (PStr field) \<noteq> None)"
| "py_contains (PList xs) field = Inr (PStr field \<in> set xs)"
| "py_contains (PStr s) field = Inr (is_substring field s)"
| "py_contains v field = Inl TypeError"

text \<open>
  \<^verbatim>\<open>metadata[field]\<close> for a string \<open>field\<close>: the stored value on a dictionary
  (\<^verbatim>\<open>KeyError\<close> when absent), \<^verbatim>\<open>TypeError\<close> on every other value (a list or a string
  is not indexed by a string, the rest is not subscriptable).
\<close>

fun py_getitem :: "py_value \<Rightarrow> string \<Rightarrow> py_exception + py_value" where
  "py_getitem (PDict kvs) field =
     (case map_of kvs (PStr field) of None \<Rightarrow> Inl KeyError | Some v \<Rightarrow> Inr v)"
| "py_getitem v field = Inl TypeError"

text \<open>
  \<^verbatim>\<open>metadata.get(field, default)\<close>: only a dictionary has the method; on any other
  value the attribute lookup raises \<^verbatim>\<open>AttributeError\<close>.
\<close>

fun py_get_default :: "py_value \<Rightarrow> string \<Rightarrow> py_value \<Rightarrow> py_exception + py_value" where
  "py_get_default (PDict kvs) field dflt =
     (case map_of kvs (PStr field) of None \<Rightarrow> Inr dflt | Some v \<Rightarrow> Inr v)"
| "py_get_default v field dflt = Inl AttributeError"

text \<open>\<^verbatim>\<open>metadata.get(field)\<close>: the default is \<^verbatim>\<open>None\<close>.\<close>

definition py_get :: "py_value \<Rightarrow> string \<Rightarrow> py_exception + py_value" where
  "py_get metadata field = py_get_default metadata field PNone"

text \<open>\<^verbatim>\<open>v in xs\<close> for a list \<open>xs\<close> of strings.\<close>

definition py_in_strs :: "py_value \<Rightarrow> string list \<Rightarrow> bool" where
  "py_in_strs v xs = (v \<in> set (map PStr xs))"

subsection \<open>The Tier-1 contract\<close>

definition TIER_1_FIELDS :: "(string \<times> py_type) list" where
  "TIER_1_FIELDS =
     [(''model_id'', T_str),
      (''git_hash'', T_str),
      (''framework'', T_str),
      (''min_app_version'', T_str),
      (''required_hardware'', T_str)]"

definition VALID_FRAMEWORKS :: "string list" where
  "VALID_FRAMEWORKS = [''pytorch'', ''tensorflow'', ''onnx'']"

definition VALID_HARDWARE :: "string list" where
  "VALID_HARDWARE = [''mps'', ''cpu'', ''cuda'']"

text \<open>
  The entries of the list \<^verbatim>\<open>errors\<close>. Each constructor stands for one message of
  \<^verbatim>\<open>validate_tier_1\<close> and carries the values the message interpolates:
  \<^item> \<open>MissingField f\<close>: \<^verbatim>\<open>Missing required field: 'f'\<close>;
  \<^item> \<open>WrongType f t\<close>: \<^verbatim>\<open>Field 'f' must be of type t\<close>;
  \<^item> \<open>IdMismatch v n\<close>: \<^verbatim>\<open>'model_id' (v) must match folder name (n)\<close>;
  \<^item> \<open>BadFramework xs\<close>: \<^verbatim>\<open>'framework' must be one of: xs\<close>;
  \<^item> \<open>BadHardware xs\<close>: \<^verbatim>\<open>'required_hardware' must be one of: xs\<close>.
\<close>

datatype tier1_error =
    MissingField string
  | WrongType string string
  | IdMismatch py_value string
  | BadFramework "string list"
  | BadHardware "string list"

text \<open>
  The loop \<^verbatim>\<open>for field, expected_type in TIER_1_FIELDS.items()\<close>, with the list
  \<^verbatim>\<open>errors\<close> as accumulator. An exception raised by \<^verbatim>\<open>in\<close> or by the subscript leaves
  the loop.
\<close>

fun check_fields ::
  "py_value \<Rightarrow> (string \<times> py_type) list \<Rightarrow> tier1_error list \<Rightarrow> py_exception + tier1_error list"
where
  "check_fields metadata [] errors = Inr errors"
| "check_fields metadata ((field, expected_type) # rest) errors =
     (case py_contains metadata field of
        Inl e \<Rightarrow> Inl e
      | Inr False \<Rightarrow> check_fields metadata rest (errors @ [MissingField field])
      | Inr True \<Rightarrow>
          (case py_getitem metadata field of
             Inl e \<Rightarrow> Inl e
           | Inr v \<Rightarrow>
               if \<not> isinstance v expected_type
               then check_fields metadata rest (errors @ [WrongType field (type_name expected_type)])
               else check_fields metadata rest errors))"

text \<open>The three checks after the loop; each appends to \<^verbatim>\<open>errors\<close> or leaves it.\<close>

definition check_model_id ::
  "py_value \<Rightarrow> string \<Rightarrow> tier1_error list \<Rightarrow> py_exception + tier1_error list" where
  "check_model_id metadata model_folder_name errors =
     (case py_get metadata ''model_id'' of
        Inl e \<Rightarrow> Inl e
      | Inr v \<Rightarrow>
          if v \<noteq> PStr model_folder_name
          then Inr (errors @ [IdMismatch v model_folder_name])
          else Inr errors)"

definition check_framework :: "py_value \<Rightarrow> tier1_error list \<Rightarrow> py_exception + tier1_error list" where
  "check_framework metadata errors =
     (case py_get metadata ''framework'' of
        Inl e \<Rightarrow> Inl e
      | Inr v \<Rightarrow>
          if \<not> py_in_strs v VALID_FRAMEWORKS
          then Inr (errors @ [BadFramework VALID_FRAMEWORKS])
          else Inr errors)"

definition check_hardware :: "py_value \<Rightarrow> tier1_error list \<Rightarrow> py_exception + tier1_error list" where
  "check_hardware metadata errors =
     (case py_get metadata ''required_hardware'' of
        Inl e \<Rightarrow> Inl e
      | Inr v \<Rightarrow>
          if \<not> py_in_strs v VALID_HARDWARE
          then Inr (errors @ [BadHardware VALID_HARDWARE])
          else Inr errors)"

text \<open>
  The value of \<^verbatim>\<open>errors\<close> when control reaches \<^verbatim>\<open>if errors:\<close>, or the exception
  raised before.
\<close>

definition tier_1_errors :: "py_value \<Rightarrow> string \<Rightarrow> py_exception + tier1_error list" where
  "tier_1_errors metadata model_folder_name =
     (case check_fields metadata TIER_1_FIELDS [] of
        Inl e \<Rightarrow> Inl e
      | Inr errors1 \<Rightarrow>
          (case check_model_id metadata model_folder_name errors1 of
             Inl e \<Rightarrow> Inl e
           | Inr errors2 \<Rightarrow>
               (case check_framework metadata errors2 of
                  Inl e \<Rightarrow> Inl e
                | Inr errors3 \<Rightarrow> check_hardware metadata errors3)))"

subsection \<open>Printed lines\<close>

text \<open>
  Every \<^verbatim>\<open>print\<close> of the script is one constructor, carrying what the line
  interpolates. \<open>SmokeFailed c\<close> is \<^verbatim>\<open>Smoke Test FAILED: {e}\<close>; in place of the text of
  the exception \<open>e\<close> it records the call that raised.
\<close>

datatype cause = ImportFailed string | LoadFailed string | CheckFailed string

datatype line =
    Usage
  | FatalPathMissing string
  | FatalNotDirectory string
  | Banner
  | Validating string
  | FatalNoMetadata string
  | FatalInvalidYaml
  | Tier1Start
  | Tier1Failed
  | Tier1Error tier1_error
  | Tier1Passed
  | SmokeStart
  | NoPyTorchFiles
  | Loading string
  | NoSavedModel
  | NoOnnxFiles
  | Checking string
  | SmokePassed string
  | SmokeFailed cause
  | SmokeNotImplemented py_value
  | BlockedTier1
  | BlockedCorruption
  | AllPassed

subsection \<open>The model folder and its environment\<close>

text \<open>
  What the script reads of the file \<^verbatim>\<open>metadata.yaml\<close>: \<^verbatim>\<open>yaml.safe_load\<close> either
  raises \<^verbatim>\<open>YAMLError\<close> on its contents or returns the parsed value.
\<close>

datatype yaml_file = Malformed | WellFormed py_value

text \<open>
  A model folder, as far as the script looks at it:
  \<^item> \<open>metadata_yaml\<close>: the declaration file, \<open>None\<close> when it does not exist;
  \<^item> \<open>listing\<close>: the names of the folder's direct entries, in the order the operating
    system lists them;
  \<^item> \<open>torch_load mf\<close>: \<^verbatim>\<open>torch.load(mf, map_location="cpu", weights_only=True)\<close>
    returns (\<open>True\<close>) or raises (\<open>False\<close>);
  \<^item> \<open>saved_model_load\<close>: \<^verbatim>\<open>tf.saved_model.load\<close> on the subdirectory returns or raises;
  \<^item> \<open>onnx_load mf\<close>, \<open>onnx_check mf\<close>: \<^verbatim>\<open>onnx.load\<close> and
    \<^verbatim>\<open>onnx.checker.check_model\<close> return or raise.
\<close>

record model_dir =
  metadata_yaml :: "yaml_file option"
  listing :: "string list"
  torch_load :: "string \<Rightarrow> bool"
  saved_model_load :: bool
  onnx_load :: "string \<Rightarrow> bool"
  onnx_check :: "string \<Rightarrow> bool"

datatype node = NoEntry | File | Dir model_dir

text \<open>
  The environment of one run: \<open>resolve\<close> is \<^verbatim>\<open>Path(arg).resolve()\<close>, \<open>node_at\<close> tells what
  lies at an absolute path, \<open>importable m\<close> whether \<^verbatim>\<open>import m\<close> succeeds.
\<close>

record world =
  resolve :: "string \<Rightarrow> string"
  node_at :: "string \<Rightarrow> node"
  importable :: "string \<Rightarrow> bool"

text \<open>\<^verbatim>\<open>model_path.name\<close> of a resolved POSIX path: its last component.\<close>

definition path_name :: "string \<Rightarrow> string" where
  "path_name p = rev (takeWhile (\<lambda>c. c \<noteq> CHR ''/'') (rev p))"

definition ends_with :: "string \<Rightarrow> string \<Rightarrow> bool" where
  "ends_with n ext = (length ext \<le> length n \<and> drop (length n - length ext) n = ext)"

text \<open>
  \<^verbatim>\<open>model_path.glob("*" + ext)\<close>: the direct entries whose name ends with \<open>ext\<close>
  (the pattern has no directory part, so nothing below the folder is visited; matching
  is case-sensitive, as on POSIX).
\<close>

definition glob_ext :: "model_dir \<Rightarrow> string \<Rightarrow> string list" where
  "glob_ext d ext = filter (\<lambda>n. ends_with n ext) (listing d)"

subsection \<open>\<^verbatim>\<open>load_metadata\<close>\<close>

text \<open>The result is \<open>Inl n\<close> for \<^verbatim>\<open>sys.exit(n)\<close> and \<open>Inr v\<close> for \<^verbatim>\<open>return v\<close>.\<close>

definition load_metadata :: "string \<Rightarrow> model_dir \<Rightarrow> line list \<times> (nat + py_value)" where
  "load_metadata model_path d =
     (case metadata_yaml d of
        None \<Rightarrow> ([FatalNoMetadata model_path], Inl 1)
      | Some Malformed \<Rightarrow> ([FatalInvalidYaml], Inl 1)
      | Some (WellFormed v) \<Rightarrow> ([], Inr v))"

subsection \<open>\<^verbatim>\<open>validate_tier_1\<close>\<close>

definition validate_tier_1 :: "py_value \<Rightarrow> string \<Rightarrow> line list \<times> (py_exception + bool)" where
  "validate_tier_1 metadata model_folder_name =
     (case tier_1_errors metadata model_folder_name of
        Inl e \<Rightarrow> ([Tier1Start], Inl e)
      | Inr errors \<Rightarrow>
          if errors \<noteq> []
          then ([Tier1Start, Tier1Failed] @ map Tier1Error errors, Inr False)
          else ([Tier1Start, Tier1Passed], Inr True))"

subsection \<open>\<^verbatim>\<open>smoke_test_model\<close>\<close>

text \<open>
  A loop \<^verbatim>\<open>for mf in files: print(...); attempt(mf)\<close> inside \<^verbatim>\<open>try\<close>: the lines
  printed and the first exception, if any. The file after a raising one is not reached.
\<close>

fun for_each_file ::
  "(string \<Rightarrow> line) \<Rightarrow> (string \<Rightarrow> cause option) \<Rightarrow> string list \<Rightarrow> line list \<times> cause option"
where
  "for_each_file pr attempt [] = ([], None)"
| "for_each_file pr attempt (mf # rest) =
     (case attempt mf of
        Some e \<Rightarrow> ([pr mf], Some e)
      | None \<Rightarrow> (case for_each_file pr attempt rest of (out, r) \<Rightarrow> (pr mf # out, r)))"

definition attempt_torch :: "model_dir \<Rightarrow> string \<Rightarrow> cause option" where
  "attempt_torch d mf = (if torch_load d mf then None else Some (LoadFailed mf))"

definition attempt_onnx :: "model_dir \<Rightarrow> string \<Rightarrow> cause option" where
  "attempt_onnx d mf =
     (if \<not> onnx_load d mf then Some (LoadFailed mf)
      else if \<not> onnx_check d mf then Some (CheckFailed mf)
      else None)"

definition smoke_pytorch :: "world \<Rightarrow> model_dir \<Rightarrow> line list \<times> bool" where
  "smoke_pytorch w d =
     (let model_files = glob_ext d ''.pt'' @ glob_ext d ''.pth'' in
      if model_files = [] then ([NoPyTorchFiles], False)
      else if \<not> importable w ''torch'' then ([SmokeFailed (ImportFailed ''torch'')], False)
      else
        (case for_each_file Loading (attempt_torch d) model_files of
           (out, Some e) \<Rightarrow> (out @ [SmokeFailed e], False)
         | (out, None) \<Rightarrow> (out @ [SmokePassed ''PyTorch''], True)))"

definition smoke_tensorflow :: "world \<Rightarrow> model_dir \<Rightarrow> line list \<times> bool" where
  "smoke_tensorflow w d =
     (if \<not> importable w ''tensorflow'' then ([SmokeFailed (ImportFailed ''tensorflow'')], False)
      else if ''saved_model'' \<in> set (listing d) then
        (if saved_model_load d then ([SmokePassed ''TensorFlow''], True)
         else ([SmokeFailed (LoadFailed ''saved_model'')], False))
      else ([NoSavedModel], False))"

definition smoke_onnx :: "world \<Rightarrow> model_dir \<Rightarrow> line list \<times> bool" where
  "smoke_onnx w d =
     (if \<not> importable w ''onnx'' then ([SmokeFailed (ImportFailed ''onnx'')], False)
      else
        (let onnx_files = glob_ext d ''.onnx'' in
         if onnx_files = [] then ([NoOnnxFiles], False)
         else
           (case for_each_file Checking (attempt_onnx d) onnx_files of
              (out, Some e) \<Rightarrow> (out @ [SmokeFailed e], False)
            | (out, None) \<Rightarrow> (out @ [SmokePassed ''ONNX''], True))))"

text \<open>The dispatch on \<^verbatim>\<open>framework\<close>, after the first \<^verbatim>\<open>print\<close>.\<close>

definition smoke_test_model :: "world \<Rightarrow> model_dir \<Rightarrow> py_value \<Rightarrow> line list \<times> bool" where
  "smoke_test_model w d framework =
     (case
        (if framework = PStr ''pytorch'' then smoke_pytorch w d
         else if framework = PStr ''tensorflow'' then smoke_tensorflow w d
         else if framework = PStr ''onnx'' then smoke_onnx w d
         else ([SmokeNotImplemented framework], True))
      of (out, r) \<Rightarrow> (SmokeStart # out, r))"

subsection \<open>\<^verbatim>\<open>main\<close>\<close>

text \<open>
  How the process ends: \<open>Exited n\<close> by \<^verbatim>\<open>sys.exit(n)\<close>, \<open>Uncaught e\<close> by an exception
  that nothing catches. The interpreter prints the traceback of an uncaught exception
  and ends the process with status 1.
\<close>

datatype ending = Exited nat | Uncaught py_exception

fun exit_code :: "ending \<Rightarrow> nat" where
  "exit_code (Exited n) = n"
| "exit_code (Uncaught e) = 1"

text \<open>The part of \<^verbatim>\<open>main\<close> after the header is printed.\<close>

definition validate_folder :: "world \<Rightarrow> string \<Rightarrow> model_dir \<Rightarrow> line list \<times> ending" where
  "validate_folder w model_path d =
     (let model_folder_name = path_name model_path in
      case load_metadata model_path d of
        (out1, Inl n) \<Rightarrow> (out1, Exited n)
      | (out1, Inr metadata) \<Rightarrow>
          (case validate_tier_1 metadata model_folder_name of
             (out2, Inl e) \<Rightarrow> (out1 @ out2, Uncaught e)
           | (out2, Inr False) \<Rightarrow> (out1 @ out2 @ [BlockedTier1], Exited 1)
           | (out2, Inr True) \<Rightarrow>
               (case py_get_default metadata ''framework'' (PStr '''') of
                  Inl e \<Rightarrow> (out1 @ out2, Uncaught e)
                | Inr framework \<Rightarrow>
                    (case smoke_test_model w d framework of
                       (out3, False) \<Rightarrow> (out1 @ out2 @ out3 @ [BlockedCorruption], Exited 2)
                     | (out3, True) \<Rightarrow> (out1 @ out2 @ out3 @ [AllPassed], Exited 0)))))"

text \<open>\<open>argv\<close> is \<^verbatim>\<open>sys.argv\<close>: the script's name, then the arguments.\<close>

definition main :: "world \<Rightarrow> string list \<Rightarrow> line list \<times> ending" where
  "main w argv =
     (if length argv \<noteq> 2 then ([Usage], Exited 1)
      else
        (let model_path = resolve w (argv ! 1) in
         case node_at w model_path of
           NoEntry \<Rightarrow> ([FatalPathMissing model_path], Exited 1)
         | File \<Rightarrow> ([FatalNotDirectory model_path], Exited 1)
         | Dir d \<Rightarrow>
             (case validate_folder w model_path d of
                (out, r) \<Rightarrow> ([Banner, Validating (path_name model_path), Banner] @ out, r))))"

subsection \<open>The contract as the specification words it\<close>

text \<open>
  The specification describes the validator on a mapping of field names to values.
  The definitions of this subsection follow its sentences, on the list of items of the
  mapping; the theorems below compare them with \<^const>\<open>tier_1_errors\<close>.
\<close>

text \<open>The value of a field of the mapping; an absent field reads as the null value.\<close>

definition field_value :: "(py_value \<times> py_value) list \<Rightarrow> string \<Rightarrow> py_value" where
  "field_value kvs field = (case map_of kvs (PStr field) of None \<Rightarrow> PNone | Some v \<Rightarrow> v)"

text \<open>
  ``For each of the five required fields: flag missing-field error if absent; flag
  type-mismatch error if present but not of the declared semantic type'' (all five are
  text fields).
\<close>

definition spec_field_check :: "(py_value \<times> py_value) list \<Rightarrow> string \<Rightarrow> tier1_error list" where
  "spec_field_check kvs field =
     (case map_of kvs (PStr field) of
        None \<Rightarrow> [MissingField field]
      | Some (PStr s) \<Rightarrow> []
      | Some v \<Rightarrow> [WrongType field ''str''])"

text \<open>
  ``Flag a mismatch error if \<open>model_id\<close> does not exactly equal the folder's base name.''
\<close>

definition spec_model_id_check :: "(py_value \<times> py_value) list \<Rightarrow> string \<Rightarrow> tier1_error list" where
  "spec_model_id_check kvs folder =
     (if field_value kvs ''model_id'' = PStr folder then []
      else [IdMismatch (field_value kvs ''model_id'') folder])"

text \<open>``Flag an error if \<open>framework\<close> is not exactly one of the three recognized values.''\<close>

definition spec_framework_check :: "(py_value \<times> py_value) list \<Rightarrow> tier1_error list" where
  "spec_framework_check kvs =
     (if field_value kvs ''framework'' \<in> {PStr ''pytorch'', PStr ''tensorflow'', PStr ''onnx''}
      then []
      else [BadFramework [''pytorch'', ''tensorflow'', ''onnx'']])"

text \<open>
  ``Flag an error if \<open>required_hardware\<close> is not exactly one of the three recognized
  values.''
\<close>

definition spec_hardware_check :: "(py_value \<times> py_value) list \<Rightarrow> tier1_error list" where
  "spec_hardware_check kvs =
     (if field_value kvs ''required_hardware'' \<in> {PStr ''mps'', PStr ''cpu'', PStr ''cuda''}
      then []
      else [BadHardware [''mps'', ''cpu'', ''cuda'']])"

text \<open>
  All checks, none depending on the outcome of another, their errors in the order of
  evaluation.
\<close>

definition spec_tier_1_errors :: "(py_value \<times> py_value) list \<Rightarrow> string \<Rightarrow> tier1_error list" where
  "spec_tier_1_errors kvs folder =
     spec_field_check kvs ''model_id'' @
     spec_field_check kvs ''git_hash'' @
     spec_field_check kvs ''framework'' @
     spec_field_check kvs ''min_app_version'' @
     spec_field_check kvs ''required_hardware'' @
     spec_model_id_check kvs folder @
     spec_framework_check kvs @
     spec_hardware_check kvs"

subsection \<open>The smoke test's loop as the specification words it\<close>

text \<open>
  The files a loop reaches when it tries each in turn and the first failure stops it:
  those before the first failing one, and that one.
\<close>

definition through_first_failure :: "('a \<Rightarrow> bool) \<Rightarrow> 'a list \<Rightarrow> 'a list" where
  "through_first_failure ok xs = takeWhile ok xs @ take 1 (dropWhile ok xs)"

text \<open>
  The files whose deserialization a run attempted, read off its output: the script
  prints \<^verbatim>\<open>Loading {mf.name}...\<close> right before each \<^verbatim>\<open>torch.load\<close>.
\<close>

definition load_attempts :: "line list \<Rightarrow> string list" where
  "load_attempts out = concat (map (\<lambda>l. case l of Loading mf \<Rightarrow> [mf] | _ \<Rightarrow> []) out)"

text \<open>The direct entries of the folder with one of the two weight-file extensions.\<close>

definition pytorch_files :: "model_dir \<Rightarrow> string list" where
  "pytorch_files d =
     filter (\<lambda>n. ends_with n ''.pt'') (listing d) @ filter (\<lambda>n. ends_with n ''.pth'') (listing d)"

subsection \<open>The error taxonomy of a run\<close>

text \<open>
  The classes of the specification's error taxonomy, and one more for a run that an
  uncaught exception ends: a declaration that parses, but not to a mapping.
\<close>

datatype run_class =
    Usage_error
  | Declaration_error
  | Contract_violation
  | Artifact_corruption
  | All_passed
  | Declaration_not_mapping

definition run_class :: "world \<Rightarrow> string list \<Rightarrow> run_class" where
  "run_class w argv =
     (if length argv \<noteq> 2 then Usage_error
      else
        (case node_at w (resolve w (argv ! 1)) of
           NoEntry \<Rightarrow> Usage_error
         | File \<Rightarrow> Usage_error
         | Dir d \<Rightarrow>
             (case metadata_yaml d of
                None \<Rightarrow> Declaration_error
              | Some Malformed \<Rightarrow> Declaration_error
              | Some (WellFormed (PDict kvs)) \<Rightarrow>
                  if spec_tier_1_errors kvs (path_name (resolve w (argv ! 1))) \<noteq> []
                  then Contract_violation
                  else if snd (smoke_test_model w d (field_value kvs ''framework''))
                  then All_passed
                  else Artifact_corruption
              | Some (WellFormed v) \<Rightarrow> Declaration_not_mapping)))"

text \<open>
  The exit code of each class: 0, 1 and 2 as the specification lists them, and the
  interpreter's status 1 for the uncaught exception.
\<close>

fun class_exit_code :: "run_class \<Rightarrow> nat" where
  "class_exit_code All_passed = 0"
| "class_exit_code Usage_error = 1"
| "class_exit_code Declaration_error = 1"
| "class_exit_code Contract_violation = 1"
| "class_exit_code Artifact_corruption = 2"
| "class_exit_code Declaration_not_mapping = 1"

subsection \<open>Example folders\<close>

text \<open>
  Concrete inputs for the instances stated after the theorems: a declaration that names
  its folder, folders with sound and with broken weight files, and an environment that
  holds them under \<^verbatim>\<open>/models\<close>.
\<close>

definition metadata_for :: "string \<Rightarrow> (py_value \<times> py_value) list" where
  "metadata_for name =
     [(PStr ''model_id'', PStr name),
      (PStr ''git_hash'', PStr ''abc123''),
      (PStr ''framework'', PStr ''pytorch''),
      (PStr ''min_app_version'', PStr ''1.0''),
      (PStr ''required_hardware'', PStr ''cpu'')]"

definition sound_dir :: "yaml_file option \<Rightarrow> model_dir" where
  "sound_dir y =
     \<lparr>metadata_yaml = y,
      listing = [''metadata.yaml'', ''weights.pt''],
      torch_load = (\<lambda>mf. True),
      saved_model_load = False,
      onnx_load = (\<lambda>mf. False),
      onnx_check = (\<lambda>mf. False)\<rparr>"

definition broken_dir :: "yaml_file option \<Rightarrow> model_dir" where
  "broken_dir y =
     \<lparr>metadata_yaml = y,
      listing = [''metadata.yaml'', ''weights.pt'', ''broken.pt'', ''notes.txt'', ''extra.pth''],
      torch_load = (\<lambda>mf. mf \<noteq> ''broken.pt''),
      saved_model_load = False,
      onnx_load = (\<lambda>mf. False),
      onnx_check = (\<lambda>mf. False)\<rparr>"

definition models_at :: "string \<Rightarrow> node" where
  "models_at p =
     (if p = ''/models/model_a'' then Dir (sound_dir (Some (WellFormed (PDict (metadata_for ''model_a'')))))
      else if p = ''/models/model_b'' then Dir (broken_dir (Some (WellFormed (PDict (metadata_for ''model_b'')))))
      else if p = ''/models/model_c'' then Dir (sound_dir (Some (WellFormed (PDict (metadata_for ''model_a'')))))
      else if p = ''/models/model_d'' then Dir (sound_dir None)
      else if p = ''/models/model_e'' then Dir (sound_dir (Some (WellFormed PNone)))
      else if p = ''/models/model_f'' then Dir (sound_dir (Some Malformed))
      else if p = ''/models/readme.txt'' then File
      else NoEntry)"

definition example_world :: "bool \<Rightarrow> world" where
  "example_world torch_installed =
     \<lparr>resolve = (\<lambda>arg. ''/models/'' @ arg),
      node_at = models_at,
      importable = (\<lambda>m. torch_installed)\<rparr>"

section \<open>The contract validator\<close>

subsection \<open>On a mapping, the code computes the specified error list\<close>

lemma py_get_dict: "py_get (PDict kvs) field = Inr (field_value kvs field)"
  by (simp add: py_get_def field_value_def split: option.splits)

lemma check_fields_step:
  "check_fields (PDict kvs) ((field, T_str) # rest) errors =
     check_fields (PDict kvs) rest (errors @ spec_field_check kvs field)"
  by (cases "map_of kvs (PStr field)")
     (auto simp: spec_field_check_def split: py_value.splits)

lemma check_fields_dict:
  "check_fields (PDict kvs) TIER_1_FIELDS [] =
     Inr (spec_field_check kvs ''model_id'' @
          spec_field_check kvs ''git_hash'' @
          spec_field_check kvs ''framework'' @
          spec_field_check kvs ''min_app_version'' @
          spec_field_check kvs ''required_hardware'')"
  unfolding TIER_1_FIELDS_def check_fields_step by simp

lemma check_model_id_dict:
  "check_model_id (PDict kvs) folder errors = Inr (errors @ spec_model_id_check kvs folder)"
  by (simp add: check_model_id_def py_get_dict spec_model_id_check_def)

lemma check_framework_dict:
  "check_framework (PDict kvs) errors = Inr (errors @ spec_framework_check kvs)"
  by (simp add: check_framework_def py_get_dict spec_framework_check_def py_in_strs_def
      VALID_FRAMEWORKS_def)

lemma check_hardware_dict:
  "check_hardware (PDict kvs) errors = Inr (errors @ spec_hardware_check kvs)"
  by (simp add: check_hardware_def py_get_dict spec_hardware_check_def py_in_strs_def
      VALID_HARDWARE_def)

lemma tier_1_errors_dict:
  "tier_1_errors (PDict kvs) folder = Inr (spec_tier_1_errors kvs folder)"
  by (simp add: tier_1_errors_def check_fields_dict check_model_id_dict check_framework_dict
      check_hardware_dict spec_tier_1_errors_def)

lemma validate_tier_1_dict:
  "validate_tier_1 (PDict kvs) folder =
     (if spec_tier_1_errors kvs folder = [] then ([Tier1Start, Tier1Passed], Inr True)
      else (Tier1Start # Tier1Failed # map Tier1Error (spec_tier_1_errors kvs folder), Inr False))"
  by (simp add: validate_tier_1_def tier_1_errors_dict)

text \<open>
  Claim C1. For every metadata mapping and folder name, the validator evaluates all
  Tier-1 checks (the five field checks, the match of \<open>model_id\<close> with the folder name, the
  domain of \<open>framework\<close>, the domain of \<open>required_hardware\<close>), none cutting another
  short; the list \<^verbatim>\<open>errors\<close> holds every error in the order of evaluation; and the
  outcome is a pass exactly when that list is empty, otherwise a failure that prints
  the whole list.
\<close>

theorem validate_tier_1_all_checks:
  "tier_1_errors (PDict kvs) folder = Inr (spec_tier_1_errors kvs folder)
   \<and> validate_tier_1 (PDict kvs) folder =
       (if spec_tier_1_errors kvs folder = [] then ([Tier1Start, Tier1Passed], Inr True)
        else (Tier1Start # Tier1Failed # map Tier1Error (spec_tier_1_errors kvs folder),
              Inr False))"
proof -
  have loop: "check_fields (PDict kvs) TIER_1_FIELDS [] =
     Inr (spec_field_check kvs ''model_id'' @
          spec_field_check kvs ''git_hash'' @
          spec_field_check kvs ''framework'' @
          spec_field_check kvs ''min_app_version'' @
          spec_field_check kvs ''required_hardware'')"
    by (rule check_fields_dict)
  have errors: "tier_1_errors (PDict kvs) folder = Inr (spec_tier_1_errors kvs folder)"
    unfolding tier_1_errors_def loop
    by (simp add: check_model_id_dict check_framework_dict check_hardware_dict
        spec_tier_1_errors_def)
  have outcome: "validate_tier_1 (PDict kvs) folder =
       (if spec_tier_1_errors kvs folder = [] then ([Tier1Start, Tier1Passed], Inr True)
        else (Tier1Start # Tier1Failed # map Tier1Error (spec_tier_1_errors kvs folder),
              Inr False))"
    unfolding validate_tier_1_def errors by simp
  from errors outcome show ?thesis by (rule conjI)
qed

text \<open>
  An instance with several violations at once: a numeric \<open>model_id\<close>, an unknown
  framework and three absent fields give seven errors, in the order of evaluation.
\<close>

theorem validate_tier_1_all_checks_witness:
  "tier_1_errors (PDict [(PStr ''model_id'', PInt 7), (PStr ''framework'', PStr ''jax'')]) ''model_a'' =
     Inr [WrongType ''model_id'' ''str'',
          MissingField ''git_hash'',
          MissingField ''min_app_version'',
          MissingField ''required_hardware'',
          IdMismatch (PInt 7) ''model_a'',
          BadFramework [''pytorch'', ''tensorflow'', ''onnx''],
          BadHardware [''mps'', ''cpu'', ''cuda'']]
   \<and> snd (validate_tier_1 (PDict [(PStr ''model_id'', PInt 7), (PStr ''framework'', PStr ''jax'')])
          ''model_a'') = Inr False
   \<and> validate_tier_1 (PDict (metadata_for ''model_a'')) ''model_a'' =
       ([Tier1Start, Tier1Passed], Inr True)"
  using validate_tier_1_all_checks
          [of "[(PStr ''model_id'', PInt 7), (PStr ''framework'', PStr ''jax'')]" "''model_a''"]
        validate_tier_1_all_checks [of "metadata_for ''model_a''" "''model_a''"]
  by (simp add: spec_tier_1_errors_def spec_field_check_def spec_model_id_check_def
      spec_framework_check_def spec_hardware_check_def field_value_def metadata_for_def)

text \<open>
  Claim C4. For every metadata mapping whose \<open>model_id\<close> value \<open>v\<close> (the null value when
  the field is absent) is not exactly the folder's base name, the error list contains
  the mismatch error naming \<open>v\<close> and the folder name, and the outcome is a failure.
\<close>

theorem model_id_mismatch_flagged:
  assumes "py_get (PDict kvs) ''model_id'' = Inr v" and "v \<noteq> PStr folder"
  shows "\<exists>errors. tier_1_errors (PDict kvs) folder = Inr errors
           \<and> IdMismatch v folder \<in> set errors
           \<and> validate_tier_1 (PDict kvs) folder =
               (Tier1Start # Tier1Failed # map Tier1Error errors, Inr False)"
proof -
  from assms have v: "v = field_value kvs ''model_id''" by (simp add: py_get_dict)
  with assms(2) have "IdMismatch v folder \<in> set (spec_model_id_check kvs folder)"
    by (simp add: spec_model_id_check_def)
  then have "IdMismatch v folder \<in> set (spec_tier_1_errors kvs folder)"
    by (simp add: spec_tier_1_errors_def)
  moreover from this have "spec_tier_1_errors kvs folder \<noteq> []" by auto
  ultimately show ?thesis
    by (simp add: tier_1_errors_dict validate_tier_1_dict)
qed

text \<open>
  An instance: the comparison is case-sensitive, \<open>Model_A\<close> in a folder \<open>model_a\<close> is a
  mismatch, and it is the only error of an otherwise valid declaration.
\<close>

theorem model_id_mismatch_flagged_witness:
  "py_get (PDict (metadata_for ''Model_A'')) ''model_id'' = Inr (PStr ''Model_A'')
   \<and> PStr ''Model_A'' \<noteq> PStr ''model_a''
   \<and> tier_1_errors (PDict (metadata_for ''Model_A'')) ''model_a'' =
       Inr [IdMismatch (PStr ''Model_A'') ''model_a'']
   \<and> validate_tier_1 (PDict (metadata_for ''Model_A'')) ''model_a'' =
       ([Tier1Start, Tier1Failed, Tier1Error (IdMismatch (PStr ''Model_A'') ''model_a'')],
        Inr False)"
proof -
  have get: "py_get (PDict (metadata_for ''Model_A'')) ''model_id'' = Inr (PStr ''Model_A'')"
    by (simp add: py_get_def metadata_for_def)
  have ne: "PStr ''Model_A'' \<noteq> PStr ''model_a''" by simp
  have errs: "tier_1_errors (PDict (metadata_for ''Model_A'')) ''model_a'' =
       Inr [IdMismatch (PStr ''Model_A'') ''model_a'']"
    by (simp add: tier_1_errors_dict spec_tier_1_errors_def spec_field_check_def
        spec_model_id_check_def spec_framework_check_def spec_hardware_check_def
        field_value_def metadata_for_def)
  from model_id_mismatch_flagged [OF get ne] errs get ne show ?thesis by auto
qed

text \<open>
  Claim C5. For every metadata mapping, the validator flags an error whenever
  \<open>framework\<close> is not exactly one of pytorch, tensorflow, onnx, and flags an error
  whenever \<open>required_hardware\<close> is not exactly one of mps, cpu, cuda; in either case the
  outcome is a failure.
\<close>

theorem domain_checks_flagged:
  "\<exists>fw hw errors.
      py_get (PDict kvs) ''framework'' = Inr fw
    \<and> py_get (PDict kvs) ''required_hardware'' = Inr hw
    \<and> tier_1_errors (PDict kvs) folder = Inr errors
    \<and> (fw \<notin> {PStr ''pytorch'', PStr ''tensorflow'', PStr ''onnx''} \<longrightarrow>
          BadFramework [''pytorch'', ''tensorflow'', ''onnx''] \<in> set errors
        \<and> snd (validate_tier_1 (PDict kvs) folder) = Inr False)
    \<and> (hw \<notin> {PStr ''mps'', PStr ''cpu'', PStr ''cuda''} \<longrightarrow>
          BadHardware [''mps'', ''cpu'', ''cuda''] \<in> set errors
        \<and> snd (validate_tier_1 (PDict kvs) folder) = Inr False)"
proof -
  let ?errs = "spec_tier_1_errors kvs folder"
  have fw: "BadFramework [''pytorch'', ''tensorflow'', ''onnx''] \<in> set ?errs"
    if "field_value kvs ''framework'' \<notin> {PStr ''pytorch'', PStr ''tensorflow'', PStr ''onnx''}"
    using that by (simp add: spec_tier_1_errors_def spec_framework_check_def)
  have hw: "BadHardware [''mps'', ''cpu'', ''cuda''] \<in> set ?errs"
    if "field_value kvs ''required_hardware'' \<notin> {PStr ''mps'', PStr ''cpu'', PStr ''cuda''}"
    using that by (simp add: spec_tier_1_errors_def spec_hardware_check_def)
  have fail: "snd (validate_tier_1 (PDict kvs) folder) = Inr False" if "e \<in> set ?errs" for e
    using that by (auto simp: validate_tier_1_dict)
  show ?thesis
    using fw hw fail by (auto simp: py_get_dict tier_1_errors_dict)
qed

text \<open>
  An instance: \<open>PyTorch\<close> (wrong case) and a numeric \<open>required_hardware\<close> are both
  outside their domains; both errors are in the list.
\<close>

theorem domain_checks_flagged_witness:
  "PStr ''PyTorch'' \<notin> {PStr ''pytorch'', PStr ''tensorflow'', PStr ''onnx''}
   \<and> PInt 0 \<notin> {PStr ''mps'', PStr ''cpu'', PStr ''cuda''}
   \<and> (\<exists>errors.
         tier_1_errors
           (PDict ((PStr ''framework'', PStr ''PyTorch'') # (PStr ''required_hardware'', PInt 0)
                   # metadata_for ''model_a'')) ''model_a'' = Inr errors
       \<and> BadFramework [''pytorch'', ''tensorflow'', ''onnx''] \<in> set errors
       \<and> BadHardware [''mps'', ''cpu'', ''cuda''] \<in> set errors)
   \<and> snd (validate_tier_1
           (PDict ((PStr ''framework'', PStr ''PyTorch'') # (PStr ''required_hardware'', PInt 0)
                   # metadata_for ''model_a'')) ''model_a'') = Inr False"
  using domain_checks_flagged
          [of "(PStr ''framework'', PStr ''PyTorch'') # (PStr ''required_hardware'', PInt 0)
               # metadata_for ''model_a''" "''model_a''"]
  by (auto simp: py_get_def)

text \<open>
  Claim C10. For every metadata mapping in which \<open>framework\<close> or \<open>required_hardware\<close> is
  absent, the error list contains both the missing-field error of that field and its
  domain error, and for an absent \<open>model_id\<close> both the missing-field error and the
  mismatch with the folder name: the later checks read the absent field as the null
  value, they are not skipped.
\<close>

theorem absent_field_flagged_twice:
  "\<exists>errors. tier_1_errors (PDict kvs) folder = Inr errors
    \<and> (py_contains (PDict kvs) ''framework'' = Inr False \<longrightarrow>
          py_get (PDict kvs) ''framework'' = Inr PNone
        \<and> MissingField ''framework'' \<in> set errors
        \<and> BadFramework VALID_FRAMEWORKS \<in> set errors)
    \<and> (py_contains (PDict kvs) ''required_hardware'' = Inr False \<longrightarrow>
          py_get (PDict kvs) ''required_hardware'' = Inr PNone
        \<and> MissingField ''required_hardware'' \<in> set errors
        \<and> BadHardware VALID_HARDWARE \<in> set errors)
    \<and> (py_contains (PDict kvs) ''model_id'' = Inr False \<longrightarrow>
          py_get (PDict kvs) ''model_id'' = Inr PNone
        \<and> MissingField ''model_id'' \<in> set errors
        \<and> IdMismatch PNone folder \<in> set errors)"
proof -
  let ?errs = "spec_tier_1_errors kvs folder"
  have absent: "field_value kvs f = PNone \<and> spec_field_check kvs f = [MissingField f]"
    if "py_contains (PDict kvs) f = Inr False" for f
    using that by (simp add: field_value_def spec_field_check_def)
  have fw: "py_get (PDict kvs) ''framework'' = Inr PNone
          \<and> MissingField ''framework'' \<in> set ?errs \<and> BadFramework VALID_FRAMEWORKS \<in> set ?errs"
    if "py_contains (PDict kvs) ''framework'' = Inr False"
    using absent[OF that]
    by (simp add: py_get_dict spec_tier_1_errors_def spec_framework_check_def VALID_FRAMEWORKS_def)
  have hw: "py_get (PDict kvs) ''required_hardware'' = Inr PNone
          \<and> MissingField ''required_hardware'' \<in> set ?errs \<and> BadHardware VALID_HARDWARE \<in> set ?errs"
    if "py_contains (PDict kvs) ''required_hardware'' = Inr False"
    using absent[OF that]
    by (simp add: py_get_dict spec_tier_1_errors_def spec_hardware_check_def VALID_HARDWARE_def)
  have mid: "py_get (PDict kvs) ''model_id'' = Inr PNone
          \<and> MissingField ''model_id'' \<in> set ?errs \<and> IdMismatch PNone folder \<in> set ?errs"
    if "py_contains (PDict kvs) ''model_id'' = Inr False"
    using absent[OF that]
    by (simp add: py_get_dict spec_tier_1_errors_def spec_model_id_check_def)
  show ?thesis
    using fw hw mid tier_1_errors_dict[of kvs folder] by blast
qed

text \<open>
  An instance: the empty mapping lacks all three fields; of its eight errors, five are
  missing-field errors and three come from the later checks.
\<close>

theorem absent_field_flagged_twice_witness:
  "py_contains (PDict []) ''framework'' = Inr False
   \<and> py_contains (PDict []) ''required_hardware'' = Inr False
   \<and> py_contains (PDict []) ''model_id'' = Inr False
   \<and> (\<exists>errors. tier_1_errors (PDict []) ''model_a'' = Inr errors
        \<and> MissingField ''framework'' \<in> set errors
        \<and> BadFramework VALID_FRAMEWORKS \<in> set errors
        \<and> MissingField ''required_hardware'' \<in> set errors
        \<and> BadHardware VALID_HARDWARE \<in> set errors
        \<and> MissingField ''model_id'' \<in> set errors
        \<and> IdMismatch PNone ''model_a'' \<in> set errors)"
  using absent_field_flagged_twice [of "[]" "''model_a''"] by auto

section \<open>The smoke tester\<close>

lemma for_each_file_out:
  "fst (for_each_file pr attempt files) =
     map pr (through_first_failure (\<lambda>mf. attempt mf = None) files)"
  by (induction files) (auto simp: through_first_failure_def split: option.splits prod.splits)

lemma for_each_file_result:
  "(snd (for_each_file pr attempt files) = None) = list_all (\<lambda>mf. attempt mf = None) files"
  by (induction files) (auto split: option.splits prod.splits)

lemma for_each_file_lines:
  "l \<in> set (fst (for_each_file pr attempt files)) \<Longrightarrow> l \<in> range pr"
  by (auto simp: for_each_file_out)

lemma load_attempts_Loading: "load_attempts (map Loading files) = files"
  by (induction files) (simp_all add: load_attempts_def)

lemma load_attempts_append: "load_attempts (xs @ ys) = load_attempts xs @ load_attempts ys"
  by (simp add: load_attempts_def)

lemma attempt_torch_None: "(attempt_torch d mf = None) = torch_load d mf"
  by (simp add: attempt_torch_def)

lemma smoke_pytorch_result:
  "snd (smoke_pytorch w d) =
     (pytorch_files d \<noteq> [] \<and> importable w ''torch'' \<and> list_all (torch_load d) (pytorch_files d))"
proof -
  have "snd (for_each_file Loading (attempt_torch d) (pytorch_files d)) = None
        \<longleftrightarrow> list_all (torch_load d) (pytorch_files d)"
    by (simp add: for_each_file_result attempt_torch_None)
  then show ?thesis
    by (cases "for_each_file Loading (attempt_torch d) (pytorch_files d)")
       (auto simp: smoke_pytorch_def pytorch_files_def glob_ext_def Let_def split: option.splits)
qed

lemma smoke_pytorch_attempts:
  "load_attempts (fst (smoke_pytorch w d)) =
     (if importable w ''torch'' then through_first_failure (torch_load d) (pytorch_files d) else [])"
proof -
  have "fst (for_each_file Loading (attempt_torch d) (pytorch_files d)) =
          map Loading (through_first_failure (torch_load d) (pytorch_files d))"
    by (simp add: for_each_file_out attempt_torch_None)
  then show ?thesis
    by (cases "for_each_file Loading (attempt_torch d) (pytorch_files d)")
       (auto simp: smoke_pytorch_def pytorch_files_def glob_ext_def Let_def load_attempts_append
          load_attempts_Loading through_first_failure_def
          split: option.splits, auto simp: load_attempts_def)
qed

lemma smoke_test_model_pytorch:
  "smoke_test_model w d (PStr ''pytorch'') =
     (SmokeStart # fst (smoke_pytorch w d), snd (smoke_pytorch w d))"
  by (simp add: smoke_test_model_def split: prod.splits)

lemma pytorch_files_example:
  "pytorch_files (broken_dir y) = [''weights.pt'', ''broken.pt'', ''extra.pth'']"
  by (simp add: pytorch_files_def broken_dir_def ends_with_def)

text \<open>
  Claim C3, as amended. For every pytorch model folder, the smoke test enumerates the
  direct entries of the folder with the extensions \<^verbatim>\<open>.pt\<close> and \<^verbatim>\<open>.pth\<close> and fails if
  there is none. Otherwise, if the torch runtime cannot be imported, it fails without
  attempting any file; if it can, it attempts the deserialization of the found files in
  turn, the first deserialization error stops the loop and fails the test. The test
  passes exactly when files are found, the runtime is imported and every found file
  deserializes.
\<close>

theorem smoke_test_pytorch:
  "snd (smoke_test_model w d (PStr ''pytorch'')) =
     (pytorch_files d \<noteq> [] \<and> importable w ''torch'' \<and> list_all (torch_load d) (pytorch_files d))
   \<and> load_attempts (fst (smoke_test_model w d (PStr ''pytorch''))) =
     (if importable w ''torch'' then through_first_failure (torch_load d) (pytorch_files d) else [])"
proof -
  have "load_attempts (SmokeStart # fst (smoke_pytorch w d)) = load_attempts (fst (smoke_pytorch w d))"
    by (simp add: load_attempts_def)
  then show ?thesis
    by (simp add: smoke_test_model_pytorch smoke_pytorch_result smoke_pytorch_attempts)
qed

text \<open>
  An instance, with torch installed: of the three weight files found, the second is
  broken; the first two are attempted, the third is not, and the test fails.
\<close>

theorem smoke_test_pytorch_witness:
  "pytorch_files (broken_dir None) = [''weights.pt'', ''broken.pt'', ''extra.pth'']
   \<and> load_attempts (fst (smoke_test_model (example_world True) (broken_dir None) (PStr ''pytorch'')))
       = [''weights.pt'', ''broken.pt'']
   \<and> snd (smoke_test_model (example_world True) (broken_dir None) (PStr ''pytorch'')) = False"
  using smoke_test_pytorch [of "example_world True" "broken_dir None"]
  by (simp add: pytorch_files_example through_first_failure_def)
     (simp add: broken_dir_def example_world_def)

text \<open>
  The claim as stated fails where torch is not installed: the folder holds a weight
  file that would deserialize, yet the import inside the \<^verbatim>\<open>try\<close> raises, no file is
  attempted and the test fails without any deserialization error.
\<close>

theorem smoke_test_pytorch_counterexample:
  "pytorch_files (sound_dir None) = [''weights.pt'']
   \<and> torch_load (sound_dir None) ''weights.pt''
   \<and> through_first_failure (torch_load (sound_dir None)) (pytorch_files (sound_dir None))
       = [''weights.pt'']
   \<and> smoke_test_model (example_world False) (sound_dir None) (PStr ''pytorch'')
       = ([SmokeStart, SmokeFailed (ImportFailed ''torch'')], False)
   \<and> load_attempts (fst (smoke_test_model (example_world False) (sound_dir None) (PStr ''pytorch'')))
       \<noteq> through_first_failure (torch_load (sound_dir None)) (pytorch_files (sound_dir None))"
  by (simp add: pytorch_files_def sound_dir_def ends_with_def through_first_failure_def
      smoke_test_model_def smoke_pytorch_def glob_ext_def example_world_def load_attempts_def)

text \<open>
  Claim C9. For every framework value outside pytorch, tensorflow and onnx, the smoke
  tester does not fail: it prints the warning that no smoke test is implemented for
  that framework and returns a pass; it does not check the value against the
  enumeration.
\<close>

theorem smoke_test_unknown_framework:
  assumes "framework \<notin> {PStr ''pytorch'', PStr ''tensorflow'', PStr ''onnx''}"
  shows "smoke_test_model w d framework = ([SmokeStart, SmokeNotImplemented framework], True)"
  using assms by (simp add: smoke_test_model_def)

text \<open>An instance: the framework string \<open>jax\<close>, and the empty string.\<close>

theorem smoke_test_unknown_framework_witness:
  "PStr ''jax'' \<notin> {PStr ''pytorch'', PStr ''tensorflow'', PStr ''onnx''}
   \<and> smoke_test_model (example_world True) (sound_dir None) (PStr ''jax'')
       = ([SmokeStart, SmokeNotImplemented (PStr ''jax'')], True)
   \<and> smoke_test_model (example_world True) (sound_dir None) (PStr '''')
       = ([SmokeStart, SmokeNotImplemented (PStr '''')], True)"
  using smoke_test_unknown_framework [of "PStr ''jax''" "example_world True" "sound_dir None"]
        smoke_test_unknown_framework [of "PStr ''''" "example_world True" "sound_dir None"]
  by simp

section \<open>The orchestrator\<close>

subsection \<open>What \<^verbatim>\<open>main\<close> does with each kind of declaration\<close>

lemma tier_1_errors_not_dict:
  "\<not> isinstance metadata T_dict \<Longrightarrow> \<exists>e. tier_1_errors metadata folder = Inl e"
  by (cases metadata)
     (auto simp: tier_1_errors_def check_model_id_def py_get_def split: sum.splits)

lemma validate_tier_1_not_dict:
  assumes "\<not> isinstance metadata T_dict"
  shows "\<exists>e. validate_tier_1 metadata folder = ([Tier1Start], Inl e)"
proof -
  from assms obtain e where "tier_1_errors metadata folder = Inl e"
    using tier_1_errors_not_dict by blast
  then show ?thesis by (simp add: validate_tier_1_def)
qed

lemma validate_tier_1_passes:
  assumes "snd (validate_tier_1 metadata folder) = Inr True"
  shows "\<exists>kvs. metadata = PDict kvs \<and> spec_tier_1_errors kvs folder = []"
proof (cases "isinstance metadata T_dict")
  case False
  then show ?thesis using validate_tier_1_not_dict[OF False, of folder] assms by auto
next
  case True
  then obtain kvs where "metadata = PDict kvs" by (cases metadata) auto
  then show ?thesis using assms by (auto simp: validate_tier_1_dict split: if_splits)
qed

lemma framework_of_valid:
  assumes "spec_tier_1_errors kvs folder = []"
  shows "field_value kvs ''framework'' \<in> {PStr ''pytorch'', PStr ''tensorflow'', PStr ''onnx''}"
    and "py_get_default (PDict kvs) ''framework'' (PStr '''') = Inr (field_value kvs ''framework'')"
proof -
  from assms have "spec_framework_check kvs = []"
    by (simp add: spec_tier_1_errors_def)
  then show 1: "field_value kvs ''framework'' \<in> {PStr ''pytorch'', PStr ''tensorflow'', PStr ''onnx''}"
    by (simp add: spec_framework_check_def split: if_splits)
  then show "py_get_default (PDict kvs) ''framework'' (PStr '''') = Inr (field_value kvs ''framework'')"
    by (auto simp: field_value_def split: option.splits)
qed

lemma validate_folder_dict:
  assumes "metadata_yaml d = Some (WellFormed (PDict kvs))"
  shows "validate_folder w p d =
     (if spec_tier_1_errors kvs (path_name p) \<noteq> []
      then (Tier1Start # Tier1Failed # map Tier1Error (spec_tier_1_errors kvs (path_name p))
              @ [BlockedTier1], Exited 1)
      else if snd (smoke_test_model w d (field_value kvs ''framework''))
      then ([Tier1Start, Tier1Passed] @ fst (smoke_test_model w d (field_value kvs ''framework''))
              @ [AllPassed], Exited 0)
      else ([Tier1Start, Tier1Passed] @ fst (smoke_test_model w d (field_value kvs ''framework''))
              @ [BlockedCorruption], Exited 2))"
proof (cases "spec_tier_1_errors kvs (path_name p) = []")
  case True
  then show ?thesis
    using assms framework_of_valid(2)[OF True]
    by (simp add: validate_folder_def load_metadata_def validate_tier_1_dict split: prod.splits)
next
  case False
  then show ?thesis
    using assms
    by (simp add: validate_folder_def load_metadata_def validate_tier_1_dict)
qed

lemma validate_folder_not_dict:
  assumes "metadata_yaml d = Some (WellFormed v)" "\<not> isinstance v T_dict"
  shows "\<exists>e. validate_folder w p d = ([Tier1Start], Uncaught e)"
proof -
  obtain e where "validate_tier_1 v (path_name p) = ([Tier1Start], Inl e)"
    using validate_tier_1_not_dict[OF assms(2)] by blast
  then show ?thesis
    using assms(1) by (simp add: validate_folder_def load_metadata_def)
qed

lemma validate_folder_no_declaration:
  assumes "metadata_yaml d = None \<or> metadata_yaml d = Some Malformed"
  shows "validate_folder w p d = ([FatalNoMetadata p], Exited 1)
       \<or> validate_folder w p d = ([FatalInvalidYaml], Exited 1)"
  using assms by (auto simp: validate_folder_def load_metadata_def)

lemma main_dir:
  assumes "length argv = 2" "node_at w (resolve w (argv ! 1)) = Dir d"
  shows "main w argv =
     ([Banner, Validating (path_name (resolve w (argv ! 1))), Banner]
        @ fst (validate_folder w (resolve w (argv ! 1)) d),
      snd (validate_folder w (resolve w (argv ! 1)) d))"
  using assms by (simp add: main_def Let_def split: prod.splits)

subsection \<open>Exit codes\<close>

lemma validate_folder_class:
  assumes "length argv = 2" "node_at w (resolve w (argv ! 1)) = Dir d"
  shows "exit_code (snd (validate_folder w (resolve w (argv ! 1)) d)) =
           class_exit_code (run_class w argv)"
proof (cases "metadata_yaml d")
  case None
  then show ?thesis using assms
    by (simp add: run_class_def validate_folder_def load_metadata_def)
next
  case (Some y)
  show ?thesis
  proof (cases y)
    case Malformed
    then show ?thesis using assms Some
      by (simp add: run_class_def validate_folder_def load_metadata_def)
  next
    case (WellFormed v)
    show ?thesis
    proof (cases "isinstance v T_dict")
      case True
      then obtain kvs where "v = PDict kvs" by (cases v) auto
      then show ?thesis using assms Some WellFormed
        by (simp add: run_class_def validate_folder_dict)
    next
      case False
      then obtain e where "validate_folder w (resolve w (argv ! 1)) d = ([Tier1Start], Uncaught e)"
        using validate_folder_not_dict Some WellFormed by blast
      moreover have "run_class w argv = Declaration_not_mapping"
        using False assms Some WellFormed by (cases v) (simp_all add: run_class_def)
      ultimately show ?thesis by simp
    qed
  qed
qed

lemma main_class: "exit_code (snd (main w argv)) = class_exit_code (run_class w argv)"
proof (cases "length argv = 2")
  case False
  then show ?thesis by (simp add: main_def run_class_def)
next
  case True
  show ?thesis
  proof (cases "node_at w (resolve w (argv ! 1))")
    case NoEntry
    then show ?thesis using True by (simp add: main_def run_class_def)
  next
    case File
    then show ?thesis using True by (simp add: main_def run_class_def)
  next
    case (Dir d)
    then show ?thesis
      using validate_folder_class[OF True Dir]
      by (simp add: main_dir[OF True Dir])
  qed
qed

lemma models_at_simps:
  "models_at ''/models/model_a'' = Dir (sound_dir (Some (WellFormed (PDict (metadata_for ''model_a'')))))"
  "models_at ''/models/model_b'' = Dir (broken_dir (Some (WellFormed (PDict (metadata_for ''model_b'')))))"
  "models_at ''/models/model_c'' = Dir (sound_dir (Some (WellFormed (PDict (metadata_for ''model_a'')))))"
  "models_at ''/models/model_d'' = Dir (sound_dir None)"
  "models_at ''/models/model_e'' = Dir (sound_dir (Some (WellFormed PNone)))"
  "models_at ''/models/model_f'' = Dir (sound_dir (Some Malformed))"
  "models_at ''/models/readme.txt'' = File"
  "models_at ''/models/nothing'' = NoEntry"
  by (simp_all add: models_at_def)

lemma example_world_simps:
  "resolve (example_world t) arg = ''/models/'' @ arg"
  "node_at (example_world t) = models_at"
  "importable (example_world t) m = t"
  by (simp_all add: example_world_def)

lemma example_dir_simps:
  "metadata_yaml (sound_dir y) = y"
  "metadata_yaml (broken_dir y) = y"
  by (simp_all add: sound_dir_def broken_dir_def)

lemma metadata_for_valid: "spec_tier_1_errors (metadata_for name) name = []"
  by (simp add: spec_tier_1_errors_def spec_field_check_def spec_model_id_check_def
      spec_framework_check_def spec_hardware_check_def field_value_def metadata_for_def)

lemma metadata_for_framework: "field_value (metadata_for name) ''framework'' = PStr ''pytorch''"
  by (simp add: field_value_def metadata_for_def)

lemma metadata_for_mismatch: "spec_tier_1_errors (metadata_for ''model_a'') ''model_c'' \<noteq> []"
  by (simp add: spec_tier_1_errors_def spec_model_id_check_def field_value_def metadata_for_def)

lemma path_name_examples:
  "path_name ''/models/model_a'' = ''model_a''"
  "path_name ''/models/model_b'' = ''model_b''"
  "path_name ''/models/model_c'' = ''model_c''"
  "path_name ''/models/model_e'' = ''model_e''"
  by (simp_all add: path_name_def)

lemma smoke_sound_dir:
  "smoke_test_model (example_world True) (sound_dir y) (PStr ''pytorch'') =
     ([SmokeStart, Loading ''weights.pt'', SmokePassed ''PyTorch''], True)"
  by (simp add: smoke_test_model_def smoke_pytorch_def glob_ext_def sound_dir_def ends_with_def
      example_world_def attempt_torch_def)

lemma smoke_broken_dir:
  "smoke_test_model (example_world True) (broken_dir y) (PStr ''pytorch'') =
     ([SmokeStart, Loading ''weights.pt'', Loading ''broken.pt'',
       SmokeFailed (LoadFailed ''broken.pt'')], False)"
  by (simp add: smoke_test_model_def smoke_pytorch_def glob_ext_def broken_dir_def ends_with_def
      example_world_def attempt_torch_def)

lemma run_class_examples:
  "run_class (example_world True) [''validate_model.py'', ''model_a''] = All_passed"
  "run_class (example_world True) [''validate_model.py''] = Usage_error"
  "run_class (example_world True) [''validate_model.py'', ''model_a'', ''model_b''] = Usage_error"
  "run_class (example_world True) [''validate_model.py'', ''nothing''] = Usage_error"
  "run_class (example_world True) [''validate_model.py'', ''readme.txt''] = Usage_error"
  "run_class (example_world True) [''validate_model.py'', ''model_d''] = Declaration_error"
  "run_class (example_world True) [''validate_model.py'', ''model_f''] = Declaration_error"
  "run_class (example_world True) [''validate_model.py'', ''model_c''] = Contract_violation"
  "run_class (example_world True) [''validate_model.py'', ''model_b''] = Artifact_corruption"
  by (simp_all add: run_class_def example_world_simps models_at_simps path_name_examples
      metadata_for_valid metadata_for_mismatch metadata_for_framework
      smoke_sound_dir smoke_broken_dir example_dir_simps)

text \<open>
  Claim C2. For every run the exit code is 0 exactly when all validations pass; it is 1
  for a usage error (wrong argument count, a path that does not exist or is not a
  directory), for a missing or malformed declaration and for a Tier-1 contract
  violation; it is 2 exactly when the contract holds and the smoke test fails. So the
  exit code alone tells a metadata problem (1) from a bad binary (2).
\<close>

theorem exit_code_by_class:
  "exit_code (snd (main w argv)) = class_exit_code (run_class w argv)
   \<and> (exit_code (snd (main w argv)) = 0 \<longleftrightarrow> run_class w argv = All_passed)
   \<and> (exit_code (snd (main w argv)) = 2 \<longleftrightarrow> run_class w argv = Artifact_corruption)"
proof -
  have code: "exit_code (snd (main w argv)) = class_exit_code (run_class w argv)"
    by (rule main_class)
  have zero: "class_exit_code c = 0 \<longleftrightarrow> c = All_passed" for c
    by (cases c) simp_all
  have two: "class_exit_code c = 2 \<longleftrightarrow> c = Artifact_corruption" for c
    by (cases c) simp_all
  from code zero two show ?thesis by simp
qed

text \<open>
  Instances, one for each class of the taxonomy: a valid folder, a missing and a
  surplus argument, a path that does not exist, a path to a file, a folder without
  declaration, a malformed declaration, a \<open>model_id\<close> of another folder, and a broken
  weight file.
\<close>

theorem exit_code_by_class_witness:
  "exit_code (snd (main (example_world True) [''validate_model.py'', ''model_a''])) = 0
   \<and> exit_code (snd (main (example_world True) [''validate_model.py''])) = 1
   \<and> exit_code (snd (main (example_world True) [''validate_model.py'', ''model_a'', ''model_b''])) = 1
   \<and> exit_code (snd (main (example_world True) [''validate_model.py'', ''nothing''])) = 1
   \<and> exit_code (snd (main (example_world True) [''validate_model.py'', ''readme.txt''])) = 1
   \<and> exit_code (snd (main (example_world True) [''validate_model.py'', ''model_d''])) = 1
   \<and> exit_code (snd (main (example_world True) [''validate_model.py'', ''model_f''])) = 1
   \<and> exit_code (snd (main (example_world True) [''validate_model.py'', ''model_c''])) = 1
   \<and> exit_code (snd (main (example_world True) [''validate_model.py'', ''model_b''])) = 2"
  using exit_code_by_class [of "example_world True" "[''validate_model.py'', ''model_a'']"]
        exit_code_by_class [of "example_world True" "[''validate_model.py'']"]
        exit_code_by_class [of "example_world True" "[''validate_model.py'', ''model_a'', ''model_b'']"]
        exit_code_by_class [of "example_world True" "[''validate_model.py'', ''nothing'']"]
        exit_code_by_class [of "example_world True" "[''validate_model.py'', ''readme.txt'']"]
        exit_code_by_class [of "example_world True" "[''validate_model.py'', ''model_d'']"]
        exit_code_by_class [of "example_world True" "[''validate_model.py'', ''model_f'']"]
        exit_code_by_class [of "example_world True" "[''validate_model.py'', ''model_c'']"]
        exit_code_by_class [of "example_world True" "[''validate_model.py'', ''model_b'']"]
  by (simp add: run_class_examples)

subsection \<open>A run without a usable declaration\<close>

text \<open>
  Claim C6. For every model folder whose \<^verbatim>\<open>metadata.yaml\<close> does not exist or does not
  parse, the process ends with exit code 1 before contract validation begins, and the
  smoke test is never invoked: neither component prints its first line.
\<close>

theorem no_declaration_exits_1:
  assumes "length argv = 2"
    and "node_at w (resolve w (argv ! 1)) = Dir d"
    and "metadata_yaml d = None \<or> metadata_yaml d = Some Malformed"
  shows "snd (main w argv) = Exited 1
       \<and> exit_code (snd (main w argv)) = 1
       \<and> Tier1Start \<notin> set (fst (main w argv))
       \<and> SmokeStart \<notin> set (fst (main w argv))"
  using validate_folder_no_declaration[OF assms(3), of w "resolve w (argv ! 1)"]
  by (auto simp: main_dir[OF assms(1,2)])

text \<open>
  Instances: a folder without the file and a folder whose file is malformed; both hold
  a weight file that would load, and neither run reaches the validator or the smoke test.
\<close>

theorem no_declaration_exits_1_witness:
  "main (example_world True) [''validate_model.py'', ''model_d''] =
     ([Banner, Validating ''model_d'', Banner, FatalNoMetadata ''/models/model_d''], Exited 1)
   \<and> Tier1Start \<notin> set (fst (main (example_world True) [''validate_model.py'', ''model_d'']))
   \<and> SmokeStart \<notin> set (fst (main (example_world True) [''validate_model.py'', ''model_d'']))
   \<and> main (example_world True) [''validate_model.py'', ''model_f''] =
     ([Banner, Validating ''model_f'', Banner, FatalInvalidYaml], Exited 1)
   \<and> Tier1Start \<notin> set (fst (main (example_world True) [''validate_model.py'', ''model_f'']))
   \<and> SmokeStart \<notin> set (fst (main (example_world True) [''validate_model.py'', ''model_f'']))"
proof -
  let ?w = "example_world True"
  have len: "length [''validate_model.py'', ''model_d''] = 2"
            "length [''validate_model.py'', ''model_f''] = 2" by simp_all
  have d: "node_at ?w (resolve ?w ([''validate_model.py'', ''model_d''] ! 1)) = Dir (sound_dir None)"
    by (simp add: example_world_simps models_at_simps)
  have f: "node_at ?w (resolve ?w ([''validate_model.py'', ''model_f''] ! 1)) =
             Dir (sound_dir (Some Malformed))"
    by (simp add: example_world_simps models_at_simps)
  have yd: "metadata_yaml (sound_dir None) = None \<or> metadata_yaml (sound_dir None) = Some Malformed"
    by (simp add: example_dir_simps)
  have yf: "metadata_yaml (sound_dir (Some Malformed)) = None
          \<or> metadata_yaml (sound_dir (Some Malformed)) = Some Malformed"
    by (simp add: example_dir_simps)
  have md: "main ?w [''validate_model.py'', ''model_d''] =
     ([Banner, Validating ''model_d'', Banner, FatalNoMetadata ''/models/model_d''], Exited 1)"
    by (simp add: main_dir[OF len(1) d] validate_folder_def load_metadata_def example_dir_simps
        example_world_simps path_name_def)
  have mf: "main ?w [''validate_model.py'', ''model_f''] =
     ([Banner, Validating ''model_f'', Banner, FatalInvalidYaml], Exited 1)"
    by (simp add: main_dir[OF len(2) f] validate_folder_def load_metadata_def example_dir_simps
        example_world_simps path_name_def)
  from no_declaration_exits_1 [OF len(1) d yd] no_declaration_exits_1 [OF len(2) f yf] md mf
  show ?thesis by simp
qed

subsection \<open>The framework handed to the smoke tester\<close>

lemma smoke_pytorch_lines: "SmokeNotImplemented v \<notin> set (fst (smoke_pytorch w d))"
proof -
  obtain out r where
    eq: "for_each_file Loading (attempt_torch d) (glob_ext d ''.pt'' @ glob_ext d ''.pth'') = (out, r)"
    by (cases "for_each_file Loading (attempt_torch d) (glob_ext d ''.pt'' @ glob_ext d ''.pth'')")
  have "SmokeNotImplemented v \<notin> set out"
    using for_each_file_lines[of "SmokeNotImplemented v" Loading "attempt_torch d"
        "glob_ext d ''.pt'' @ glob_ext d ''.pth''"] eq by auto
  then show ?thesis
    using eq by (auto simp: smoke_pytorch_def Let_def split: option.splits)
qed

lemma smoke_tensorflow_lines: "SmokeNotImplemented v \<notin> set (fst (smoke_tensorflow w d))"
  by (simp add: smoke_tensorflow_def)

lemma smoke_onnx_lines: "SmokeNotImplemented v \<notin> set (fst (smoke_onnx w d))"
proof -
  obtain out r where
    eq: "for_each_file Checking (attempt_onnx d) (glob_ext d ''.onnx'') = (out, r)"
    by (cases "for_each_file Checking (attempt_onnx d) (glob_ext d ''.onnx'')")
  have "SmokeNotImplemented v \<notin> set out"
    using for_each_file_lines[of "SmokeNotImplemented v" Checking "attempt_onnx d"
        "glob_ext d ''.onnx''"] eq by auto
  then show ?thesis
    using eq by (auto simp: smoke_onnx_def Let_def split: option.splits)
qed

lemma smoke_known_lines:
  assumes "framework \<in> {PStr ''pytorch'', PStr ''tensorflow'', PStr ''onnx''}"
  shows "SmokeNotImplemented v \<notin> set (fst (smoke_test_model w d framework))"
  using assms smoke_pytorch_lines[of v w d] smoke_tensorflow_lines[of v w d]
    smoke_onnx_lines[of v w d]
  by (auto simp: smoke_test_model_def split: prod.splits)

lemma validate_folder_lines: "SmokeNotImplemented v \<notin> set (fst (validate_folder w p d))"
proof (cases "metadata_yaml d")
  case None
  then show ?thesis by (simp add: validate_folder_def load_metadata_def)
next
  case (Some y)
  show ?thesis
  proof (cases y)
    case Malformed
    then show ?thesis using Some by (simp add: validate_folder_def load_metadata_def)
  next
    case (WellFormed md)
    show ?thesis
    proof (cases "isinstance md T_dict")
      case False
      then show ?thesis
        using validate_folder_not_dict[of d md w p] Some WellFormed by auto
    next
      case True
      then obtain kvs where md: "md = PDict kvs" by (cases md) auto
      show ?thesis
      proof (cases "spec_tier_1_errors kvs (path_name p) = []")
        case False
        then show ?thesis
          using Some WellFormed md by (auto simp: validate_folder_dict)
      next
        case True
        then show ?thesis
          using Some WellFormed md smoke_known_lines[OF framework_of_valid(1)[OF True], of v w d]
          by (auto simp: validate_folder_dict)
      qed
    qed
  qed
qed

lemma main_lines: "SmokeNotImplemented v \<notin> set (fst (main w argv))"
proof (cases "length argv = 2")
  case False
  then show ?thesis by (simp add: main_def)
next
  case True
  show ?thesis
  proof (cases "node_at w (resolve w (argv ! 1))")
    case NoEntry
    then show ?thesis using True by (simp add: main_def)
  next
    case File
    then show ?thesis using True by (simp add: main_def)
  next
    case (Dir d)
    then show ?thesis
      using validate_folder_lines[of v w "resolve w (argv ! 1)" d]
      by (simp add: main_dir[OF True Dir])
  qed
qed

text \<open>
  Claim C8. Whenever the validator returns a pass, the value
  \<^verbatim>\<open>metadata.get("framework", "")\<close> that \<^verbatim>\<open>main\<close> hands to the smoke tester is one of
  the strings pytorch, tensorflow, onnx; so no run of \<^verbatim>\<open>main\<close> reaches the smoke
  tester's branch for an unrecognized framework: its warning is never printed.
\<close>

theorem smoke_fallback_unreachable:
  "(snd (validate_tier_1 metadata folder) = Inr True \<longrightarrow>
      (\<exists>s \<in> set VALID_FRAMEWORKS. py_get_default metadata ''framework'' (PStr '''') = Inr (PStr s)))
   \<and> SmokeNotImplemented v \<notin> set (fst (main w argv))"
proof -
  have "\<exists>s \<in> set VALID_FRAMEWORKS. py_get_default metadata ''framework'' (PStr '''') = Inr (PStr s)"
    if "snd (validate_tier_1 metadata folder) = Inr True"
  proof -
    from validate_tier_1_passes[OF that] obtain kvs
      where md: "metadata = PDict kvs" and ok: "spec_tier_1_errors kvs folder = []" by blast
    from framework_of_valid[OF ok] md show ?thesis
      by (auto simp: VALID_FRAMEWORKS_def)
  qed
  then show ?thesis using main_lines by blast
qed

text \<open>
  An instance: the declaration of \<open>model_a\<close> passes the validator, and the smoke tester
  receives the string \<open>pytorch\<close>.
\<close>

theorem smoke_fallback_unreachable_witness:
  "snd (validate_tier_1 (PDict (metadata_for ''model_a'')) ''model_a'') = Inr True
   \<and> (\<exists>s \<in> set VALID_FRAMEWORKS.
         py_get_default (PDict (metadata_for ''model_a'')) ''framework'' (PStr '''') = Inr (PStr s))
   \<and> py_get_default (PDict (metadata_for ''model_a'')) ''framework'' (PStr '''') = Inr (PStr ''pytorch'')
   \<and> SmokeNotImplemented (PStr ''pytorch'')
       \<notin> set (fst (main (example_world True) [''validate_model.py'', ''model_a'']))"
proof -
  have pass: "snd (validate_tier_1 (PDict (metadata_for ''model_a'')) ''model_a'') = Inr True"
    by (simp add: validate_tier_1_dict metadata_for_valid)
  have fw: "py_get_default (PDict (metadata_for ''model_a'')) ''framework'' (PStr '''') =
              Inr (PStr ''pytorch'')"
    by (simp add: metadata_for_def)
  from smoke_fallback_unreachable
         [of "PDict (metadata_for ''model_a'')" "''model_a''" "PStr ''pytorch''"
             "example_world True" "[''validate_model.py'', ''model_a'']"]
       pass fw
  show ?thesis by simp
qed

subsection \<open>A declaration that is well-formed but not a mapping\<close>

lemma load_metadata_well_formed:
  "metadata_yaml d = Some (WellFormed v) \<Longrightarrow> load_metadata model_path d = ([], Inr v)"
  by (simp add: load_metadata_def)

text \<open>
  Claim C7 says that for every declaration file that exists and is well-formed, the
  loader returns a mapping on which the validator can operate. The loader returns
  whatever \<^verbatim>\<open>yaml.safe_load\<close> built (lemma \<open>load_metadata_well_formed\<close>), and that is
  a mapping only if the document is one. An empty file is well-formed and parses to
  \<^verbatim>\<open>None\<close>: the loader returns it, the validator's first \<^verbatim>\<open>in\<close> raises \<^verbatim>\<open>TypeError\<close>,
  and the run ends with the uncaught exception. A document that is a list gets through
  the loop and fails at \<^verbatim>\<open>metadata.get\<close> with \<^verbatim>\<open>AttributeError\<close>.
\<close>

theorem load_metadata_not_a_mapping:
  "load_metadata ''/models/model_e'' (sound_dir (Some (WellFormed PNone))) = ([], Inr PNone)
   \<and> \<not> isinstance PNone T_dict
   \<and> validate_tier_1 PNone ''model_e'' = ([Tier1Start], Inl TypeError)
   \<and> main (example_world True) [''validate_model.py'', ''model_e''] =
       ([Banner, Validating ''model_e'', Banner, Tier1Start], Uncaught TypeError)
   \<and> load_metadata ''/models/model_e'' (sound_dir (Some (WellFormed (PList [PStr ''pytorch''])))) =
       ([], Inr (PList [PStr ''pytorch'']))
   \<and> validate_tier_1 (PList [PStr ''pytorch'']) ''model_e'' = ([Tier1Start], Inl AttributeError)"
proof -
  have len: "length [''validate_model.py'', ''model_e''] = 2" by simp
  have e: "node_at (example_world True)
             (resolve (example_world True) ([''validate_model.py'', ''model_e''] ! 1)) =
           Dir (sound_dir (Some (WellFormed PNone)))"
    by (simp add: example_world_simps models_at_simps)
  have v: "validate_tier_1 PNone folder = ([Tier1Start], Inl TypeError)" for folder
    by (simp add: validate_tier_1_def tier_1_errors_def TIER_1_FIELDS_def)
  have l: "validate_tier_1 (PList [PStr ''pytorch'']) ''model_e'' = ([Tier1Start], Inl AttributeError)"
    by (simp add: validate_tier_1_def tier_1_errors_def TIER_1_FIELDS_def check_model_id_def
        py_get_def)
  have m: "main (example_world True) [''validate_model.py'', ''model_e''] =
       ([Banner, Validating ''model_e'', Banner, Tier1Start], Uncaught TypeError)"
    by (simp add: main_dir[OF len e] validate_folder_def load_metadata_def example_dir_simps
        example_world_simps path_name_def v)
  show ?thesis
    using v l m by (simp add: load_metadata_def example_dir_simps)
qed

end
